theory Spec2Isabelle
  imports Main
begin

section \<open>JavaScript values used by the movie listing page\<close>

text \<open>
  The page works on JavaScript numbers that are either integral or not-a-number.
  A number is modelled by its mathematical integer value, or \<open>NaN\<close>; the rounding of
  doubles above \<open>2^53\<close> and the overflow to infinity are outside the model.
\<close>

datatype jsnum = NaN | Num int

text \<open>\<open>Math.max\<close> and \<open>Math.min\<close> return not-a-number as soon as one argument is.\<close>

fun Math_max :: "jsnum \<Rightarrow> jsnum \<Rightarrow> jsnum" where
  "Math_max (Num a) (Num b) = Num (max a b)"
| "Math_max _ _ = NaN"

fun Math_min :: "jsnum \<Rightarrow> jsnum \<Rightarrow> jsnum" where
  "Math_min (Num a) (Num b) = Num (min a b)"
| "Math_min _ _ = NaN"

fun js_add :: "jsnum \<Rightarrow> jsnum \<Rightarrow> jsnum" where
  "js_add (Num a) (Num b) = Num (a + b)"
| "js_add _ _ = NaN"

fun js_sub :: "jsnum \<Rightarrow> jsnum \<Rightarrow> jsnum" where
  "js_sub (Num a) (Num b) = Num (a - b)"
| "js_sub _ _ = NaN"

fun js_mul :: "jsnum \<Rightarrow> jsnum \<Rightarrow> jsnum" where
  "js_mul (Num a) (Num b) = Num (a * b)"
| "js_mul _ _ = NaN"

text \<open>
  \<open>parseInt(string)\<close> without a radix: leading white space is skipped, one sign is
  read, a \<open>0x\<close> or \<open>0X\<close> prefix selects radix 16 (radix 10 otherwise), and the longest
  run of digits of that radix is converted; an empty run gives not-a-number. Strings are
  byte strings, so only the ASCII white space characters are recognised.
\<close>

definition isWhiteSpace :: "char \<Rightarrow> bool" where
  "isWhiteSpace c = (c \<in> set [CHR 0x09, CHR 0x0A, CHR 0x0B, CHR 0x0C, CHR 0x0D, CHR 0x20])"

definition digitValue :: "char \<Rightarrow> nat" where
  "digitValue c =
     (let n = (of_char c :: nat) in
      if 48 \<le> n \<and> n \<le> 57 then n - 48
      else if 97 \<le> n \<and> n \<le> 122 then n - 87
      else if 65 \<le> n \<and> n \<le> 90 then n - 55
      else 36)"

definition isRadixDigit :: "nat \<Rightarrow> char \<Rightarrow> bool" where
  "isRadixDigit R c = (digitValue c < R)"

definition digitsValue :: "nat \<Rightarrow> string \<Rightarrow> nat" where
  "digitsValue R Z = foldl (\<lambda>acc c. acc * R + digitValue c) 0 Z"

definition parseInt :: "string \<Rightarrow> jsnum" where
  "parseInt inputString =
     (let S = dropWhile isWhiteSpace inputString;
          sign = (if take 1 S = ''-'' then - 1 else (1 :: int));
          S1 = (if take 1 S = ''+'' \<or> take 1 S = ''-'' then drop 1 S else S);
          hex = (take 2 S1 = ''0x'' \<or> take 2 S1 = ''0X'');
          R = (if hex then 16 else 10);
          S2 = (if hex then drop 2 S1 else S1);
          Z = takeWhile (isRadixDigit R) S2
      in if Z = [] then NaN else Num (sign * int (digitsValue R Z)))"

text \<open>
  A value read from an object: a string, one of the built-in functions or objects that
  every plain object inherits from \<open>Object.prototype\<close>, or \<open>undefined\<close>.
\<close>

datatype jsval = JStr string | JFun string | JObj string | JUndefined

fun truthy :: "jsval \<Rightarrow> bool" where
  "truthy (JStr s) = (s \<noteq> [])"
| "truthy (JFun _) = True"
| "truthy (JObj _) = True"
| "truthy JUndefined = False"

text \<open>The property key a value turns into when it is used as a computed key.\<close>

fun toPropertyKey :: "jsval \<Rightarrow> string" where
  "toPropertyKey (JStr s) = s"
| "toPropertyKey (JFun name) = ''function '' @ name @ ''() { [native code] }''"
| "toPropertyKey (JObj _) = ''[object Object]''"
| "toPropertyKey JUndefined = ''undefined''"

text \<open>The properties of \<open>Object.prototype\<close>: the name of each and the value it holds.\<close>

definition Object_prototype :: "(string \<times> jsval) list" where
  "Object_prototype =
     [(''constructor'', JFun ''Object''),
      (''__defineGetter__'', JFun ''__defineGetter__''),
      (''__defineSetter__'', JFun ''__defineSetter__''),
      (''hasOwnProperty'', JFun ''hasOwnProperty''),
      (''__lookupGetter__'', JFun ''__lookupGetter__''),
      (''__lookupSetter__'', JFun ''__lookupSetter__''),
      (''isPrototypeOf'', JFun ''isPrototypeOf''),
      (''propertyIsEnumerable'', JFun ''propertyIsEnumerable''),
      (''toString'', JFun ''toString''),
      (''valueOf'', JFun ''valueOf''),
      (''__proto__'', JObj ''Object.prototype''),
      (''toLocaleString'', JFun ''toLocaleString'')]"

text \<open>
  \<open>obj[key]\<close> on an object literal with string-valued own properties: an own property
  first, then the prototype, then \<open>undefined\<close>.
\<close>

definition js_get :: "(string \<times> string) list \<Rightarrow> string \<Rightarrow> jsval" where
  "js_get own key =
     (case map_of own key of
        Some v \<Rightarrow> JStr v
      | None \<Rightarrow> (case map_of Object_prototype key of Some v \<Rightarrow> v | None \<Rightarrow> JUndefined))"

text \<open>\<open>x || d\<close> for an optional string \<open>x\<close>: absent and empty both give \<open>d\<close>.\<close>

fun str_or :: "string option \<Rightarrow> string \<Rightarrow> string" where
  "str_or None d = d"
| "str_or (Some s) d = (if s = [] then d else s)"

section \<open>The movie listing page: query parameters\<close>

text \<open>
  The request's search parameters, as \<open>Object.entries\<close> lists them: name and value.
  \<open>params.name\<close> is the value of the entry of that name, if there is one.
\<close>

type_synonym search_params = "(string \<times> string) list"

definition param :: "search_params \<Rightarrow> string \<Rightarrow> string option" where
  "param params name = map_of params name"

definition SORT_MAP :: "(string \<times> string) list" where
  "SORT_MAP =
     [(''title'', ''title''),
      (''releaseDate'', ''releaseDate''),
      (''rating'', ''rating''),
      (''votes'', ''votes'')]"

definition query :: "search_params \<Rightarrow> string" where
  "query params = str_or (param params ''q'') ''''"

definition selectedGenre :: "search_params \<Rightarrow> string" where
  "selectedGenre params = str_or (param params ''genre'') ''''"

definition sort_param :: "search_params \<Rightarrow> string" where
  "sort_param params = str_or (param params ''sort'') ''title''"

definition page :: "search_params \<Rightarrow> jsnum" where
  "page params = parseInt (str_or (param params ''page'') ''1'')"

definition sortOrder :: "search_params \<Rightarrow> string" where
  "sortOrder params = (if param params ''order'' = Some ''desc'' then ''desc'' else ''asc'')"

definition sortField :: "search_params \<Rightarrow> jsval" where
  "sortField params =
     (let v = js_get SORT_MAP (sort_param params) in if truthy v then v else JStr ''title'')"

definition PAGE_SIZE :: int where
  "PAGE_SIZE = 24"

definition currentPage :: "search_params \<Rightarrow> jsnum" where
  "currentPage params = Math_max (Num 1) (page params)"

section \<open>The movie listing page: the two queries\<close>

text \<open>
  A movie as far as the listing's filter reads it: its title and the names of the genres
  linked to it.
\<close>

record movie =
  movie_id :: nat
  movie_title :: string
  movie_genres :: "string list"

text \<open>
  The filter object both queries pass: \<open>title: { contains, mode: "insensitive" }\<close> and,
  only when a genre is selected, \<open>genres: { some: { name } }\<close>.
\<close>

record movie_where =
  title_contains :: string
  genres_some_name :: "string option"

record findMany_args =
  orderBy :: "string \<times> string"
  where_arg :: movie_where
  skip_arg :: jsnum
  take_arg :: int

text \<open>The argument of \<open>prisma.movie.findMany\<close> as the page writes it.\<close>

definition movies_args :: "search_params \<Rightarrow> findMany_args" where
  "movies_args params =
     \<lparr> orderBy = (toPropertyKey (sortField params), sortOrder params),
       where_arg =
         \<lparr> title_contains = query params,
           genres_some_name =
             (if selectedGenre params \<noteq> [] then Some (selectedGenre params) else None) \<rparr>,
       skip_arg = js_mul (js_sub (currentPage params) (Num 1)) (Num PAGE_SIZE),
       take_arg = PAGE_SIZE \<rparr>"

text \<open>The \<open>where\<close> of \<open>prisma.movie.count\<close>, written out a second time in the page.\<close>

definition totalMovies_where :: "search_params \<Rightarrow> movie_where" where
  "totalMovies_where params =
     \<lparr> title_contains = query params,
       genres_some_name =
         (if selectedGenre params \<noteq> [] then Some (selectedGenre params) else None) \<rparr>"

text \<open>
  What the data store does with the filter: containment of the search text in the title
  with ASCII letters compared regardless of case, and membership of the genre name among
  the movie's genres.
\<close>

definition toLower :: "char \<Rightarrow> char" where
  "toLower c =
     (let n = (of_char c :: nat) in if 65 \<le> n \<and> n \<le> 90 then char_of (n + 32) else c)"

fun isPrefixOf :: "string \<Rightarrow> string \<Rightarrow> bool" where
  "isPrefixOf [] _ = True"
| "isPrefixOf (a # as) [] = False"
| "isPrefixOf (a # as) (b # bs) = (a = b \<and> isPrefixOf as bs)"

fun isInfixOf :: "string \<Rightarrow> string \<Rightarrow> bool" where
  "isInfixOf needle [] = (needle = [])"
| "isInfixOf needle (c # cs) = (isPrefixOf needle (c # cs) \<or> isInfixOf needle cs)"

definition contains_insensitive :: "string \<Rightarrow> string \<Rightarrow> bool" where
  "contains_insensitive text needle = isInfixOf (map toLower needle) (map toLower text)"

definition where_holds :: "movie_where \<Rightarrow> movie \<Rightarrow> bool" where
  "where_holds w m =
     (contains_insensitive (movie_title m) (title_contains w) \<and>
      (case genres_some_name w of None \<Rightarrow> True | Some g \<Rightarrow> g \<in> set (movie_genres m)))"

definition prisma_movie_count :: "movie list \<Rightarrow> movie_where \<Rightarrow> int" where
  "prisma_movie_count db w = int (length (filter (where_holds w) db))"

datatype prisma_error = ValidationError

text \<open>
  \<open>findMany\<close>: the rows that pass the filter, ordered by the named field in the named
  direction, \<open>skip\<close> rows dropped and at most \<open>take\<close> rows kept. \<open>key\<close> gives the
  ordering value of a row for each scalar field the model has; a field it does not have,
  or a \<open>skip\<close> that is not a non-negative integer, is refused.
\<close>

definition prisma_movie_findMany ::
  "(string \<Rightarrow> (movie \<Rightarrow> 'k::linorder) option) \<Rightarrow> movie list \<Rightarrow> findMany_args
     \<Rightarrow> prisma_error + movie list" where
  "prisma_movie_findMany key db args =
     (case key (fst (orderBy args)) of
        None \<Rightarrow> Inl ValidationError
      | Some f \<Rightarrow>
          (case skip_arg args of
             NaN \<Rightarrow> Inl ValidationError
           | Num s \<Rightarrow>
               if s < 0 then Inl ValidationError
               else
                 let matching = filter (where_holds (where_arg args)) db;
                     ordered =
                       (if snd (orderBy args) = ''desc'' then rev (sort_key f matching)
                        else sort_key f matching)
                 in Inr (take (nat (take_arg args)) (drop (nat s) ordered))))"

definition totalMovies :: "movie list \<Rightarrow> search_params \<Rightarrow> int" where
  "totalMovies db params = prisma_movie_count db (totalMovies_where params)"

text \<open>\<open>Math.ceil(totalMovies / PAGE_SIZE)\<close> on an integer count.\<close>

definition totalPages :: "int \<Rightarrow> int" where
  "totalPages n = - ((- n) div PAGE_SIZE)"

section \<open>The movie listing page: page links\<close>

text \<open>\<open>URLSearchParams.set\<close>: the first pair of that name takes the value and the other
  pairs of that name go; without such a pair one is appended.\<close>

fun sp_set :: "(string \<times> string) list \<Rightarrow> string \<Rightarrow> string \<Rightarrow> (string \<times> string) list" where
  "sp_set [] name v = [(name, v)]"
| "sp_set ((k, w) # rest) name v =
     (if k = name then (name, v) # filter (\<lambda>kv. fst kv \<noteq> name) rest
      else (k, w) # sp_set rest name v)"

text \<open>\<open>URLSearchParams.toString\<close>: the form-urlencoded serialisation of the pairs.\<close>

definition hexDigit :: "nat \<Rightarrow> char" where
  "hexDigit n = ''0123456789ABCDEF'' ! (n mod 16)"

definition urlencode_byte :: "char \<Rightarrow> string" where
  "urlencode_byte c =
     (let n = (of_char c :: nat) in
      if c = CHR 0x20 then ''+''
      else if (48 \<le> n \<and> n \<le> 57) \<or> (65 \<le> n \<and> n \<le> 90) \<or> (97 \<le> n \<and> n \<le> 122)
              \<or> c \<in> set ''*-._'' then [c]
      else [CHR ''%'', hexDigit (n div 16), hexDigit n])"

definition urlencode :: "string \<Rightarrow> string" where
  "urlencode s = concat (map urlencode_byte s)"

fun sp_toString :: "(string \<times> string) list \<Rightarrow> string" where
  "sp_toString [] = []"
| "sp_toString [(k, v)] = urlencode k @ ''='' @ urlencode v"
| "sp_toString ((k, v) # rest) = urlencode k @ ''='' @ urlencode v @ ''&'' @ sp_toString rest"

text \<open>\<open>String(p)\<close> for a number of the model.\<close>

fun string_of_nat :: "nat \<Rightarrow> string" where
  "string_of_nat n =
     (if n < 10 then [char_of (48 + n)]
      else string_of_nat (n div 10) @ [char_of (48 + n mod 10)])"

declare string_of_nat.simps [simp del]

fun js_String :: "jsnum \<Rightarrow> string" where
  "js_String NaN = ''NaN''"
| "js_String (Num i) = (if i < 0 then ''-'' @ string_of_nat (nat (- i)) else string_of_nat (nat i))"

text \<open>The loop of \<open>createPageHref\<close> over \<open>Object.entries(params)\<close>.\<close>

fun copy_params :: "search_params \<Rightarrow> (string \<times> string) list \<Rightarrow> (string \<times> string) list" where
  "copy_params [] sp = sp"
| "copy_params ((key, v) # rest) sp =
     (if v = [] \<or> key = ''page'' then copy_params rest sp
      else copy_params rest (sp_set sp key v))"

definition createPageHref_sp :: "search_params \<Rightarrow> jsnum \<Rightarrow> (string \<times> string) list" where
  "createPageHref_sp params p = sp_set (copy_params params []) ''page'' (js_String p)"

definition createPageHref :: "search_params \<Rightarrow> jsnum \<Rightarrow> string" where
  "createPageHref params p = ''?'' @ sp_toString (createPageHref_sp params p)"

text \<open>The targets of the previous and the next link.\<close>

definition previousTarget :: "jsnum \<Rightarrow> jsnum" where
  "previousTarget cp = Math_max (Num 1) (js_sub cp (Num 1))"

definition nextTarget :: "int \<Rightarrow> jsnum \<Rightarrow> jsnum" where
  "nextTarget tp cp = Math_min (Num tp) (js_add cp (Num 1))"

text \<open>
  What \<open>getPaginationItems\<close> returns: page numbers and ellipsis marks. The function is
  imported from another module; the page's rendering takes it as a parameter.
\<close>

datatype pagination_item = Ellipsis | PageNumber int

datatype rendered_item = PaginationEllipsis | PaginationLink string bool int

record pagination =
  previous_href :: string
  previous_disabled :: bool
  page_items :: "rendered_item list"
  next_href :: string
  next_disabled :: bool

definition render_item :: "search_params \<Rightarrow> jsnum \<Rightarrow> pagination_item \<Rightarrow> rendered_item" where
  "render_item params cp item =
     (case item of
        Ellipsis \<Rightarrow> PaginationEllipsis
      | PageNumber n \<Rightarrow> PaginationLink (createPageHref params (Num n)) (cp = Num n) n)"

definition renderPagination ::
  "(int \<Rightarrow> jsnum \<Rightarrow> int \<Rightarrow> pagination_item list) \<Rightarrow> search_params \<Rightarrow> int
     \<Rightarrow> pagination option" where
  "renderPagination getPaginationItems params n_movies =
     (let tp = totalPages n_movies;
          cp = currentPage params;
          paginationItems = getPaginationItems tp cp 2
      in if tp > 1 then
           Some \<lparr> previous_href = createPageHref params (previousTarget cp),
                  previous_disabled = (cp = Num 1),
                  page_items = map (render_item params cp) paginationItems,
                  next_href = createPageHref params (nextTarget tp cp),
                  next_disabled = (cp = Num tp) \<rparr>
         else None)"


section \<open>Linking a person to a movie\<close>














section \<open>Properties of the query parameters\<close>

lemmas parse_defs = currentPage_def page_def param_def parseInt_def isWhiteSpace_def
  isRadixDigit_def digitValue_def digitsValue_def

lemma currentPage_numeric:
  "page params = Num n \<Longrightarrow> currentPage params = Num (max 1 n)"
  by (simp add: currentPage_def)


text \<open>
  Claim C1 says that every raw \<open>page\<close> parameter, a non-numeric one included, gives a
  page index that is an integer of at least 1, a parse failure being treated as the
  input \<open>"0"\<close>. The page computes \<open>Math.max(1, parseInt(...))\<close>, and \<open>Math.max\<close> returns
  not-a-number when the parse fails: for \<open>page=abc\<close> the page index is not-a-number
  while \<open>page=0\<close> gives 1, and the \<open>skip\<close> handed to the data store is not-a-number too.
\<close>

theorem currentPage_not_a_number:
  "currentPage [(''page'', ''abc'')] = NaN \<and>
   currentPage [(''page'', ''0'')] = Num 1 \<and>
   skip_arg (movies_args [(''page'', ''abc'')]) = NaN"
  by (simp add: movies_args_def parse_defs)

text \<open>
  Claim C2 says that every raw \<open>sort\<close> parameter resolves to one of \<open>title\<close>,
  \<open>releaseDate\<close>, \<open>rating\<close>, \<open>votes\<close>. \<open>SORT_MAP\<close> is an object literal, so
  \<open>SORT_MAP[sort]\<close> also finds what the object inherits: for \<open>sort=constructor\<close> the
  lookup gives the \<open>Object\<close> function, which is truthy, and the key of \<open>orderBy\<close> becomes
  the text of that function.
\<close>

theorem sortField_inherited_property:
  "sortField [(''sort'', ''constructor'')] = JFun ''Object'' \<and>
   fst (orderBy (movies_args [(''sort'', ''constructor'')]))
     = ''function Object() { [native code] }'' \<and>
   fst (orderBy (movies_args [(''sort'', ''constructor'')])) \<notin> set (map snd SORT_MAP)"
  by (simp add: movies_args_def sortField_def sort_param_def param_def js_get_def
      SORT_MAP_def Object_prototype_def)

text \<open>For a \<open>sort\<close> that names no inherited property the field is one of the four.\<close>

lemma sortField_whitelisted:
  assumes "sort_param params \<notin> set (map fst Object_prototype)"
  shows "sortField params \<in> JStr ` set (map snd SORT_MAP)"
proof (cases "map_of SORT_MAP (sort_param params)")
  case None
  moreover from assms have "map_of Object_prototype (sort_param params) = None"
    by (simp add: map_of_eq_None_iff)
  ultimately show ?thesis by (simp add: sortField_def js_get_def SORT_MAP_def)
next
  case (Some v)
  then have "(sort_param params, v) \<in> set SORT_MAP" by (rule map_of_SomeD)
  then have "v \<in> set (map snd SORT_MAP)" "v \<noteq> []" by (auto simp: SORT_MAP_def)
  with Some show ?thesis by (simp add: sortField_def js_get_def)
qed

text \<open>
  Claim C4: the sort direction is descending exactly when the raw \<open>order\<close> parameter is
  the string \<open>desc\<close>; every other input (absent, \<open>DESC\<close>, \<open>Desc\<close>, the empty string)
  gives ascending, and that direction is the one handed to the data store.
\<close>

theorem sortOrder_desc_iff:
  "(sortOrder params = ''desc'') = (param params ''order'' = Some ''desc'') \<and>
   (sortOrder params = ''asc'') = (param params ''order'' \<noteq> Some ''desc'') \<and>
   snd (orderBy (movies_args params)) = sortOrder params \<and>
   sortOrder [] = ''asc'' \<and>
   sortOrder [(''order'', ''DESC'')] = ''asc'' \<and>
   sortOrder [(''order'', ''Desc'')] = ''asc'' \<and>
   sortOrder [(''order'', '''')] = ''asc'' \<and>
   sortOrder [(''order'', ''desc'')] = ''desc''"
  by (simp add: sortOrder_def movies_args_def param_def)

lemma take_arg_fixed: "take_arg (movies_args params) = 24"
  by (simp add: movies_args_def PAGE_SIZE_def)



section \<open>Properties of the two queries\<close>

text \<open>
  Claim C9: for every search text and genre filter, the filter of \<open>findMany\<close> and the
  filter of \<open>count\<close> are the same: the title contains the search text regardless of
  case and, when a genre is selected, the movie has a genre of that name. The total is
  therefore the number of movies that pass the filter of \<open>findMany\<close>.
\<close>

theorem where_same_in_both_queries:
  "where_arg (movies_args params) = totalMovies_where params \<and>
   where_holds (totalMovies_where params) m =
     (contains_insensitive (movie_title m) (query params) \<and>
      (selectedGenre params = [] \<or> selectedGenre params \<in> set (movie_genres m))) \<and>
   totalMovies db params = int (length (filter (where_holds (where_arg (movies_args params))) db))"
  by (simp add: movies_args_def totalMovies_where_def where_holds_def totalMovies_def
      prisma_movie_count_def)

text \<open>
  When \<open>findMany\<close> answers, the page of movies is a slice of 24 rows of an ordering of
  exactly the movies the total counts.
\<close>

lemma findMany_pages_counted_population:
  assumes "prisma_movie_findMany key db (movies_args params) = Inr ms"
  shows "\<exists>ordered s. set ordered = {m \<in> set db. where_holds (totalMovies_where params) m} \<and>
           int (length ordered) = totalMovies db params \<and>
           skip_arg (movies_args params) = Num s \<and> 0 \<le> s \<and>
           ms = take 24 (drop (nat s) ordered)"
proof -
  have w: "where_arg (movies_args params) = totalMovies_where params"
    by (simp add: movies_args_def totalMovies_where_def)
  from assms obtain f where f: "key (fst (orderBy (movies_args params))) = Some f"
    by (auto simp: prisma_movie_findMany_def split: option.splits)
  from assms f obtain s where s: "skip_arg (movies_args params) = Num s"
    by (cases "skip_arg (movies_args params)") (auto simp: prisma_movie_findMany_def)
  from assms f s have s0: "0 \<le> s"
    by (auto simp: prisma_movie_findMany_def split: if_splits)
  define matching where "matching = filter (where_holds (totalMovies_where params)) db"
  define ordered where "ordered =
    (if snd (orderBy (movies_args params)) = ''desc'' then rev (sort_key f matching)
     else sort_key f matching)"
  have "set ordered = {m \<in> set db. where_holds (totalMovies_where params) m}"
    by (auto simp: ordered_def matching_def)
  moreover have "int (length ordered) = totalMovies db params"
    by (simp add: ordered_def matching_def totalMovies_def prisma_movie_count_def)
  moreover from assms f s s0 have "ms = take 24 (drop (nat s) ordered)"
    unfolding prisma_movie_findMany_def ordered_def matching_def w take_arg_fixed
    by (simp add: Let_def)
  ultimately show ?thesis using s s0 by blast
qed

section \<open>Properties of the page links\<close>

lemma totalPages_le_1: "(totalPages n \<le> 1) = (n \<le> 24)"
  unfolding totalPages_def PAGE_SIZE_def by presburger

text \<open>
  Claim C6: with at most one page of results (no result at all included) nothing of the
  pagination control is rendered, neither the page links nor the previous and next
  links; the control is rendered exactly when there is more than one page, which is when
  more than 24 movies pass the filter.
\<close>

theorem pagination_rendered_iff:
  "(renderPagination g params n = None) = (totalPages n \<le> 1) \<and>
   (\<exists>pg. renderPagination g params n = Some pg) = (1 < totalPages n) \<and>
   (totalPages n \<le> 1) = (n \<le> 24) \<and>
   totalPages 0 = 0 \<and>
   renderPagination g params 0 = None"
proof -
  have a: "(renderPagination g params k = None) = (totalPages k \<le> 1)" for k
    by (auto simp: renderPagination_def Let_def)
  have z: "totalPages 0 = 0" by (simp add: totalPages_def)
  have b: "(\<exists>pg. renderPagination g params n = Some pg) = (1 < totalPages n)"
    using a [of n] by (cases "renderPagination g params n") auto
  show ?thesis using a b z totalPages_le_1 by simp
qed




lemma sp_set_fresh:
  "name \<notin> set (map fst sp) \<Longrightarrow> sp_set sp name v = sp @ [(name, v)]"
  by (induction sp) auto

lemma copy_params_distinct:
  "distinct (map fst params) \<Longrightarrow> set (map fst params) \<inter> set (map fst sp) = {} \<Longrightarrow>
   copy_params params sp = sp @ filter (\<lambda>kv. snd kv \<noteq> [] \<and> fst kv \<noteq> ''page'') params"
proof (induction params arbitrary: sp)
  case Nil
  then show ?case by simp
next
  case (Cons kv params)
  obtain k v where kv: "kv = (k, v)" by (cases kv)
  from Cons.prems kv have fresh: "k \<notin> set (map fst sp)" and d: "distinct (map fst params)"
    and k: "k \<notin> set (map fst params)" and disj: "set (map fst params) \<inter> set (map fst sp) = {}"
    by auto
  show ?case
  proof (cases "v = [] \<or> k = ''page''")
    case True
    with kv Cons.IH [OF d disj] show ?thesis by auto
  next
    case False
    from k disj have "set (map fst params) \<inter> set (map fst (sp @ [(k, v)])) = {}" by auto
    from Cons.IH [OF d this] False kv fresh show ?thesis by (simp add: sp_set_fresh)
  qed
qed

text \<open>
  Claim C8, as the page builds the link: the search parameters of the link for page \<open>p\<close>
  are the request's parameters other than \<open>page\<close> whose value is not empty, in the
  request's order and with their values unchanged, followed by \<open>page\<close> set to \<open>p\<close>;
  a parameter whose value is empty is left out. The names of a request's parameters are
  distinct, as the keys of an object are.
\<close>

theorem createPageHref_keeps_nonempty_params:
  assumes "distinct (map fst params)"
  shows "createPageHref_sp params p =
           filter (\<lambda>kv. snd kv \<noteq> [] \<and> fst kv \<noteq> ''page'') params @ [(''page'', js_String p)] \<and>
         createPageHref params p =
           ''?'' @ sp_toString (filter (\<lambda>kv. snd kv \<noteq> [] \<and> fst kv \<noteq> ''page'') params
                                 @ [(''page'', js_String p)])"
proof -
  have c: "copy_params params [] = filter (\<lambda>kv. snd kv \<noteq> [] \<and> fst kv \<noteq> ''page'') params"
    using copy_params_distinct [OF assms, of "[]"] by simp
  have "''page'' \<notin> set (map fst (filter (\<lambda>kv. snd kv \<noteq> [] \<and> fst kv \<noteq> ''page'') params))"
    by auto
  then have "createPageHref_sp params p =
      filter (\<lambda>kv. snd kv \<noteq> [] \<and> fst kv \<noteq> ''page'') params @ [(''page'', js_String p)]"
    unfolding createPageHref_sp_def c by (rule sp_set_fresh)
  then show ?thesis by (simp add: createPageHref_def)
qed

text \<open>The request \<open>?q=star wars&genre=&page=3&sort=rating\<close> and the link to page 4.\<close>

theorem createPageHref_keeps_nonempty_params_witness:
  "distinct (map fst [(''q'', ''star wars''), (''genre'', ''''), (''page'', ''3''),
                      (''sort'', ''rating'')]) \<and>
   createPageHref_sp [(''q'', ''star wars''), (''genre'', ''''), (''page'', ''3''),
                      (''sort'', ''rating'')] (Num 4)
     = [(''q'', ''star wars''), (''sort'', ''rating''), (''page'', ''4'')] \<and>
   createPageHref [(''q'', ''star wars''), (''genre'', ''''), (''page'', ''3''),
                   (''sort'', ''rating'')] (Num 4)
     = ''?q=star+wars&sort=rating&page=4''"
proof -
  have d: "distinct (map fst [(''q'', ''star wars''), (''genre'', ''''), (''page'', ''3''),
                              (''sort'', ''rating'')])"
    by simp
  have s: "js_String (Num 4) = ''4''" by code_simp
  have e: "sp_toString [(''q'', ''star wars''), (''sort'', ''rating''), (''page'', ''4'')]
             = ''q=star+wars&sort=rating&page=4''"
    by code_simp
  from createPageHref_keeps_nonempty_params [OF d, of "Num 4"] d s e show ?thesis by simp
qed

text \<open>
  Claim C8 as it is written fails for a parameter with an empty value: the request
  \<open>?q=&genre=Drama\<close> has the parameter \<open>q\<close>, the link to page 2 has not.
\<close>

theorem createPageHref_drops_empty_value:
  "createPageHref [(''q'', ''''), (''genre'', ''Drama'')] (Num 2) = ''?genre=Drama&page=2'' \<and>
   (''q'', '''') \<in> set [(''q'', ''''), (''genre'', ''Drama'')] \<and>
   ''q'' \<notin> set (map fst (createPageHref_sp [(''q'', ''''), (''genre'', ''Drama'')] (Num 2)))"
  by code_simp

section \<open>Properties of linking a person to a movie\<close>











end
